theory Spec2Isabelle
  imports Main "HOL-Library.Word"
begin

section \<open>The recorder component (audio and video notes)\<close>

text \<open>
  The recorder is a React function component. Its state lives in \<open>useState\<close> variables
  and \<open>useRef\<close> cells; both are fields of the record \<open>session\<close> below. The platform
  objects the component holds (capture streams, interval timers, the MediaRecorder) are
  modelled as small stores inside the same record:
  \<^item> \<open>tracks\<close> lists every capture stream acquired so far, by handle; the entry says
    whether the tracks of that stream are still live;
  \<^item> \<open>intervals\<close> lists every interval timer created so far, by handle; a live timer
    carries the value of \<open>isPaused\<close> that its callback closed over;
  \<^item> \<open>stopEvents\<close> lists the stop events that calls of \<open>mr.stop()\<close> have queued and
    that have not fired yet, oldest first; each carries the \<open>mode\<close> that the \<open>onstop\<close>
    handler of its recorder closed over.

  A handler (\<open>start\<close>, \<open>pause\<close>, \<open>resume\<close>, \<open>stop\<close>) is the closure of the latest
  render, so the state variables it reads are those of the state it is applied to. A
  callback that outlives the render that created it (the interval callback, the
  recorder's \<open>onstop\<close>) keeps the constants of that render: they are stored with it.
  The asynchronous \<open>start\<close> is modelled as one step whose outcome is decided by the
  platform record.
\<close>

subsection \<open>Data\<close>

datatype kind = Audio | Video

type_synonym byte = "8 word"

record blob =
  payload :: "byte list"
  btype :: string

definition blob_size :: "blob \<Rightarrow> nat" where
  "blob_size b = length (payload b)"

text \<open>\<open>new Blob(parts, {type})\<close>: the parts' bytes in order, tagged with \<open>type\<close>.\<close>

definition new_Blob :: "blob list \<Rightarrow> string \<Rightarrow> blob" where
  "new_Blob parts t = \<lparr>payload = concat (map payload parts), btype = t\<rparr>"

text \<open>
  What the browser answers: whether \<open>window.MediaRecorder\<close> exists, its static
  \<open>isTypeSupported\<close> (absent on some runtimes, hence the optional call in the source),
  and whether \<open>getUserMedia\<close> resolves with a stream.
\<close>

record platform =
  hasMediaRecorder :: bool
  isTypeSupported :: "(string \<Rightarrow> bool) option"
  grantsUserMedia :: bool

datatype rec_state = Inactive | Recording | Paused

datatype exn = InvalidStateError | DecodeError

text \<open>
  The MediaRecorder object: its \<open>state\<close> attribute, the stream it records, the
  \<open>mimeType\<close> option it was constructed with, and the \<open>mode\<close> that its \<open>onstop\<close>
  handler closed over.
\<close>

record media_recorder =
  rstate :: rec_state
  rstream :: nat
  rmimeType :: "string option"
  onstop_mode :: kind

datatype video_el = VideoEl (srcObject: "nat option")

datatype start_failure = GetUserMediaRejected | RecorderConstructionFailed

record session =
  mode :: kind
  isRecording :: bool
  isPaused :: bool
  seconds :: nat
  blobUrl :: "blob option"
  blob :: "blob option"
  mediaRecorderRef :: "media_recorder option"
  chunksRef :: "blob list"
  streamRef :: "nat option"
  liveVideoRef :: "video_el option"
  timerRef :: "nat option"
  tracks :: "bool list"
  intervals :: "bool option list"
  stopEvents :: "kind list"
  alerts :: "start_failure list"

definition init_session :: session where
  "init_session =
     \<lparr>mode = Audio, isRecording = False, isPaused = False, seconds = 0,
      blobUrl = None, blob = None, mediaRecorderRef = None, chunksRef = [],
      streamRef = None, liveVideoRef = None, timerRef = None,
      tracks = [], intervals = [], stopEvents = [], alerts = []\<rparr>"

subsection \<open>Codec negotiation: \<open>pickMimeType\<close>\<close>

definition candidates :: "kind \<Rightarrow> string list" where
  "candidates k =
     (if k = Video
      then [''video/webm;codecs=vp9,opus'', ''video/webm;codecs=vp8,opus'', ''video/webm'']
      else [''audio/webm;codecs=opus'', ''audio/webm''])"

text \<open>The test \<open>window.MediaRecorder && MediaRecorder.isTypeSupported?.(t)\<close>.\<close>

definition reportsSupported :: "platform \<Rightarrow> string \<Rightarrow> bool" where
  "reportsSupported pf t =
     (hasMediaRecorder pf \<and> (case isTypeSupported pf of None \<Rightarrow> False | Some f \<Rightarrow> f t))"

text \<open>The \<open>for (const t of candidates)\<close> loop; \<open>None\<close> is the \<open>undefined\<close> it falls through to.\<close>

fun pick_first :: "platform \<Rightarrow> string list \<Rightarrow> string option" where
  "pick_first pf [] = None"
| "pick_first pf (t # ts) = (if reportsSupported pf t then Some t else pick_first pf ts)"

definition pickMimeType :: "platform \<Rightarrow> kind \<Rightarrow> string option" where
  "pickMimeType pf k = pick_first pf (candidates k)"

subsection \<open>Platform operations\<close>

definition stopTracks :: "nat \<Rightarrow> session \<Rightarrow> session" where
  "stopTracks sid s = s\<lparr>tracks := (tracks s)[sid := False]\<rparr>"

definition clearInterval :: "nat option \<Rightarrow> session \<Rightarrow> session" where
  "clearInterval h s =
     (case h of None \<Rightarrow> s | Some i \<Rightarrow> s\<lparr>intervals := (intervals s)[i := None]\<rparr>)"

text \<open>
  MediaRecorder methods. \<open>pause\<close>, \<open>resume\<close> and \<open>stop\<close> throw \<open>InvalidStateError\<close>
  on an inactive recorder.
\<close>

definition mr_pause :: "media_recorder \<Rightarrow> exn + media_recorder" where
  "mr_pause r =
     (if rstate r = Inactive then Inl InvalidStateError
      else Inr (r\<lparr>rstate := Paused\<rparr>))"

definition mr_resume :: "media_recorder \<Rightarrow> exn + media_recorder" where
  "mr_resume r =
     (if rstate r = Inactive then Inl InvalidStateError
      else Inr (r\<lparr>rstate := Recording\<rparr>))"

definition mr_stop :: "media_recorder \<Rightarrow> exn + media_recorder" where
  "mr_stop r =
     (if rstate r = Inactive then Inl InvalidStateError
      else Inr (r\<lparr>rstate := Inactive\<rparr>))"

subsection \<open>Handlers\<close>

definition resetRecording :: "session \<Rightarrow> session" where
  "resetRecording s = s\<lparr>blob := None, blobUrl := None, seconds := 0, isPaused := False\<rparr>"

text \<open>
  \<open>start\<close>. The constants \<open>mode\<close> and \<open>isPaused\<close> are those of the render whose
  \<open>start\<close> was invoked; the state setters called on the way do not change them. The
  constructor call \<open>new MediaRecorder(...)\<close> throws where the runtime has no
  \<open>MediaRecorder\<close>; every exception lands in the \<open>catch\<close>, which only alerts.
\<close>

definition start :: "platform \<Rightarrow> session \<Rightarrow> session" where
  "start pf s =
     (let m = mode s;
          p = isPaused s;
          s1 = resetRecording s
      in if \<not> grantsUserMedia pf
         then s1\<lparr>alerts := alerts s1 @ [GetUserMediaRejected]\<rparr>
         else
           let sid = length (tracks s1);
               s2 = s1\<lparr>tracks := tracks s1 @ [True], streamRef := Some sid\<rparr>;
               s3 = (if m = Video
                     then (case liveVideoRef s2 of
                             None \<Rightarrow> s2
                           | Some v \<Rightarrow> s2\<lparr>liveVideoRef := Some (VideoEl (Some sid))\<rparr>)
                     else s2);
               mimeType = pickMimeType pf m
           in if \<not> hasMediaRecorder pf
              then s3\<lparr>alerts := alerts s3 @ [RecorderConstructionFailed]\<rparr>
              else
                let mr = \<lparr>rstate = Recording, rstream = sid,
                          rmimeType = mimeType, onstop_mode = m\<rparr>;
                    tid = length (intervals s3)
                in s3\<lparr>chunksRef := [],
                      mediaRecorderRef := Some mr,
                      isRecording := True,
                      isPaused := False,
                      seconds := 0,
                      intervals := intervals s3 @ [Some p],
                      timerRef := Some tid\<rparr>)"

text \<open>\<open>mr.ondataavailable\<close>: \<open>e.data\<close> may be null; an empty chunk is not pushed.\<close>

definition ondataavailable :: "blob option \<Rightarrow> session \<Rightarrow> session" where
  "ondataavailable d s =
     (case d of
        None \<Rightarrow> s
      | Some c \<Rightarrow> if blob_size c > 0 then s\<lparr>chunksRef := chunksRef s @ [c]\<rparr> else s)"

text \<open>
  \<open>mr.onstop\<close>. Every recorder has its own handler, a closure of the \<open>start\<close> that
  constructed it: \<open>m\<close> is the \<open>mode\<close> of that render, whatever the mode and the recorder
  in \<open>mediaRecorderRef\<close> are when the event fires. \<open>chunksRef.current\<close> is read when the
  handler runs.
\<close>

definition onstop :: "kind \<Rightarrow> session \<Rightarrow> session" where
  "onstop m s =
     (let type = (if m = Video then ''video/webm'' else ''audio/webm'');
          b = new_Blob (chunksRef s) type
      in s\<lparr>blob := Some b, blobUrl := Some b\<rparr>)"

text \<open>The interval callback \<open>setSeconds((s) => (isPaused ? s : s + 1))\<close>.\<close>

definition interval_callback :: "bool \<Rightarrow> session \<Rightarrow> session" where
  "interval_callback capturedPaused s =
     s\<lparr>seconds := (if capturedPaused then seconds s else seconds s + 1)\<rparr>"

text \<open>One second passes: every live interval timer runs its callback.\<close>

definition tick :: "session \<Rightarrow> session" where
  "tick s =
     fold (\<lambda>i st. case i of None \<Rightarrow> st | Some p \<Rightarrow> interval_callback p st) (intervals s) s"

definition pause :: "session \<Rightarrow> exn option \<times> session" where
  "pause s =
     (case mediaRecorderRef s of
        None \<Rightarrow> (None, s)
      | Some r \<Rightarrow>
          if rstate r = Recording
          then (case mr_pause r of
                  Inl e \<Rightarrow> (Some e, s)
                | Inr r' \<Rightarrow> (None, s\<lparr>mediaRecorderRef := Some r', isPaused := True\<rparr>))
          else (None, s))"

definition resume :: "session \<Rightarrow> exn option \<times> session" where
  "resume s =
     (case mediaRecorderRef s of
        None \<Rightarrow> (None, s)
      | Some r \<Rightarrow>
          if rstate r = Paused
          then (case mr_resume r of
                  Inl e \<Rightarrow> (Some e, s)
                | Inr r' \<Rightarrow> (None, s\<lparr>mediaRecorderRef := Some r', isPaused := False\<rparr>))
          else (None, s))"

text \<open>
  \<open>stop\<close> is \<open>try { ... } finally { ... }\<close> with no \<open>catch\<close>: the \<open>finally\<close> block
  always runs, and an exception of \<open>mr.stop()\<close> leaves the handler afterwards. A
  successful \<open>mr.stop()\<close> queues the stop event of that recorder.
\<close>

definition stop_finally :: "session \<Rightarrow> session" where
  "stop_finally s =
     (let s1 = s\<lparr>isRecording := False, isPaused := False\<rparr>;
          s2 = (clearInterval (timerRef s1) s1)\<lparr>timerRef := None\<rparr>;
          s3 = (case streamRef s2 of
                  None \<Rightarrow> s2
                | Some sid \<Rightarrow> (stopTracks sid s2)\<lparr>streamRef := None\<rparr>)
      in case liveVideoRef s3 of
           None \<Rightarrow> s3
         | Some v \<Rightarrow> s3\<lparr>liveVideoRef := Some (VideoEl None)\<rparr>)"

definition stop :: "session \<Rightarrow> exn option \<times> session" where
  "stop s =
     (case mediaRecorderRef s of
        None \<Rightarrow> (None, stop_finally s)
      | Some r \<Rightarrow>
          if isRecording s
          then (case mr_stop r of
                  Inl e \<Rightarrow> (Some e, stop_finally s)
                | Inr r' \<Rightarrow>
                    (None, stop_finally (s\<lparr>mediaRecorderRef := Some r',
                                           stopEvents := stopEvents s @ [onstop_mode r]\<rparr>)))
          else (None, stop_finally s))"

text \<open>The cleanup of the mount effect (component teardown).\<close>

definition unmount :: "session \<Rightarrow> session" where
  "unmount s =
     (let s1 = clearInterval (timerRef s) s;
          s2 = (case mediaRecorderRef s1 of
                  None \<Rightarrow> s1
                | Some r \<Rightarrow>
                    if rstate r \<noteq> Inactive
                    then (case mr_stop r of
                            Inl e \<Rightarrow> s1
                          | Inr r' \<Rightarrow>
                              s1\<lparr>mediaRecorderRef := Some r',
                                 stopEvents := stopEvents s1 @ [onstop_mode r]\<rparr>)
                    else s1);
          s3 = (case streamRef s2 of None \<Rightarrow> s2 | Some sid \<Rightarrow> stopTracks sid s2)
      in case liveVideoRef s3 of
           None \<Rightarrow> s3
         | Some v \<Rightarrow> s3\<lparr>liveVideoRef := Some (VideoEl None)\<rparr>)"

text \<open>
  The stop event of a recorder fires and runs the \<open>onstop\<close> of that recorder. The events
  queued by calls of \<open>mr.stop()\<close> fire first, in the order of the calls. With none
  queued, the event is that of the recorder in \<open>mediaRecorderRef\<close>, which has ended by
  itself (an error, or the tracks of its stream ended) and is inactive from then on. The
  platform fires the stop event of a recorder once; the model keeps no record of that
  and admits it again.
\<close>

definition stop_event :: "session \<Rightarrow> session" where
  "stop_event s =
     (case stopEvents s of
        m # ms \<Rightarrow> onstop m (s\<lparr>stopEvents := ms\<rparr>)
      | [] \<Rightarrow>
          (case mediaRecorderRef s of
             None \<Rightarrow> s
           | Some r \<Rightarrow>
               onstop (onstop_mode r) (s\<lparr>mediaRecorderRef := Some (r\<lparr>rstate := Inactive\<rparr>)\<rparr>)))"

subsection \<open>Events and runs\<close>

text \<open>
  After a handler has run React renders again: the live preview element exists exactly
  while \<open>isRecording && mode === "video"\<close>, and \<open>liveVideoRef\<close> follows it.
\<close>

definition commit :: "session \<Rightarrow> session" where
  "commit s =
     (if isRecording s \<and> mode s = Video
      then (case liveVideoRef s of
              None \<Rightarrow> s\<lparr>liveVideoRef := Some (VideoEl None)\<rparr>
            | Some v \<Rightarrow> s)
      else s\<lparr>liveVideoRef := None\<rparr>)"

datatype event =
    ClickStart
  | Tick
  | ClickPause
  | ClickResume
  | ClickStop
  | DataAvailable "blob option"
  | StopEvent
  | SetMode kind
  | Unmount

definition handle :: "platform \<Rightarrow> event \<Rightarrow> session \<Rightarrow> session" where
  "handle pf e s =
     (case e of
        ClickStart \<Rightarrow> start pf s
      | Tick \<Rightarrow> tick s
      | ClickPause \<Rightarrow> snd (pause s)
      | ClickResume \<Rightarrow> snd (resume s)
      | ClickStop \<Rightarrow> snd (stop s)
      | DataAvailable d \<Rightarrow> ondataavailable d s
      | StopEvent \<Rightarrow> stop_event s
      | SetMode k \<Rightarrow> (if \<not> isRecording s then s\<lparr>mode := k\<rparr> else s)
      | Unmount \<Rightarrow> unmount s)"

definition step :: "platform \<Rightarrow> event \<Rightarrow> session \<Rightarrow> session" where
  "step pf e s = commit (handle pf e s)"

definition run :: "platform \<Rightarrow> event list \<Rightarrow> session \<Rightarrow> session" where
  "run pf es s = fold (step pf) es s"

text \<open>A browser with MediaRecorder that supports every format and grants the device.\<close>

definition full_platform :: platform where
  "full_platform =
     \<lparr>hasMediaRecorder = True, isTypeSupported = Some (\<lambda>t. True), grantsUserMedia = True\<rparr>"

text \<open>A browser that grants the device but has no MediaRecorder.\<close>

definition bare_platform :: platform where
  "bare_platform =
     \<lparr>hasMediaRecorder = False, isTypeSupported = None, grantsUserMedia = True\<rparr>"

text \<open>A browser whose MediaRecorder supports plain \<open>video/webm\<close> only.\<close>

definition webm_only_platform :: platform where
  "webm_only_platform =
     \<lparr>hasMediaRecorder = True, isTypeSupported = Some (\<lambda>t. t = ''video/webm''),
      grantsUserMedia = True\<rparr>"

text \<open>The chunks that the recorder delivered in a run, in arrival order.\<close>

fun delivered :: "event list \<Rightarrow> blob list" where
  "delivered [] = []"
| "delivered (DataAvailable (Some c) # es) = c # delivered es"
| "delivered (e # es) = delivered es"

section \<open>The QR scan screen (recognition loop)\<close>

text \<open>
  The scan effect of the application component, for one activation (one run of the
  effect while the screen is \<open>SCAN\<close>). The state holds the refs the effect uses and the
  callbacks it has handed to the browser:
  \<^item> \<open>raf\<close> is the pending animation-frame callback, if any, with the \<open>stream\<close> its
    closure holds. One activation has at most one pending callback, whose handle is
    \<open>rafRef.current\<close>, so \<open>cancelAnimationFrame(rafRef.current)\<close> empties \<open>raf\<close>;
  \<^item> \<open>timeouts\<close> are the pending \<open>setTimeout\<close> callbacks, oldest first, each with the
    \<open>code.data\<close> it will navigate to;
  \<^item> \<open>hrefs\<close> logs the assignments to \<open>window.location.href\<close> (the redirects).
\<close>

record scanner =
  videoEl :: bool
  canvasEl :: bool
  videoSrc :: "nat option"
  scanStreamRef :: "nat option"
  cameraAllowed :: bool
  raf :: "nat option"
  timeouts :: "string list"
  hrefs :: "string list"
  camTracks :: "bool list"

text \<open>The scan screen as first rendered: video and canvas mounted, nothing acquired.\<close>

definition init_scanner :: scanner where
  "init_scanner =
     \<lparr>videoEl = True, canvasEl = True, videoSrc = None, scanStreamRef = None,
      cameraAllowed = False, raf = None, timeouts = [], hrefs = [], camTracks = []\<rparr>"

text \<open>What \<open>jsQR\<close> does with one frame: returns null, returns a code, or throws.\<close>

datatype decode_result = NoCode | Code string | DecodeThrows

text \<open>
  The effect's \<open>start\<close>: \<open>granted\<close> says whether \<open>getUserMedia\<close> resolves, \<open>playOk\<close>
  whether \<open>video.play()\<close> does. A rejection is caught and clears \<open>cameraAllowed\<close>.
\<close>

definition scan_start :: "bool \<Rightarrow> bool \<Rightarrow> scanner \<Rightarrow> scanner" where
  "scan_start granted playOk s =
     (if \<not> granted then s\<lparr>cameraAllowed := False\<rparr>
      else
        let sid = length (camTracks s);
            s1 = s\<lparr>camTracks := camTracks s @ [True], scanStreamRef := Some sid\<rparr>
        in if \<not> videoEl s1 then s1
           else
             let s2 = s1\<lparr>videoSrc := Some sid\<rparr>
             in if \<not> playOk then s2\<lparr>cameraAllowed := False\<rparr>
                else s2\<lparr>cameraAllowed := True, raf := Some sid\<rparr>)"

text \<open>
  One run of \<open>loop\<close>, for the stream \<open>sid\<close> of its closure and the outcome \<open>d\<close> of
  \<open>jsQR\<close> on the sampled frame. \<open>code?.data\<close> is truthy for a non-empty string only.
  Nothing in \<open>loop\<close> catches an exception of the decoder.
\<close>

definition loop :: "nat \<Rightarrow> decode_result \<Rightarrow> scanner \<Rightarrow> exn + scanner" where
  "loop sid d s =
     (if videoEl s \<and> canvasEl s
      then (case d of
              DecodeThrows \<Rightarrow> Inl DecodeError
            | Code p \<Rightarrow>
                if p \<noteq> []
                then Inr (s\<lparr>camTracks := (camTracks s)[sid := False],
                            raf := None,
                            timeouts := timeouts s @ [p]\<rparr>)
                else Inr (s\<lparr>raf := Some sid\<rparr>)
            | NoCode \<Rightarrow> Inr (s\<lparr>raf := Some sid\<rparr>))
      else Inr (s\<lparr>raf := Some sid\<rparr>))"

text \<open>
  The browser runs the pending animation-frame callback, which is then no longer
  pending. An exception that leaves the callback is reported by the browser and changes
  nothing else.
\<close>

definition animation_frame :: "decode_result \<Rightarrow> scanner \<Rightarrow> scanner" where
  "animation_frame d s =
     (case raf s of
        None \<Rightarrow> s
      | Some sid \<Rightarrow>
          (case loop sid d (s\<lparr>raf := None\<rparr>) of
             Inl e \<Rightarrow> s\<lparr>raf := None\<rparr>
           | Inr s' \<Rightarrow> s'))"

text \<open>The oldest pending timeout fires: \<open>window.location.href = code.data\<close>.\<close>

definition timeout_fires :: "scanner \<Rightarrow> scanner" where
  "timeout_fires s =
     (case timeouts s of
        [] \<Rightarrow> s
      | p # ps \<Rightarrow> s\<lparr>timeouts := ps, hrefs := hrefs s @ [p]\<rparr>)"

text \<open>The cleanup of the scan effect: it runs when the screen changes (cancellation).\<close>

definition cleanup :: "scanner \<Rightarrow> scanner" where
  "cleanup s =
     (let s1 = s\<lparr>raf := None\<rparr>
      in case scanStreamRef s1 of
           None \<Rightarrow> s1
         | Some sid \<Rightarrow> s1\<lparr>camTracks := (camTracks s1)[sid := False]\<rparr>)"

datatype scan_event = Frame decode_result | TimeoutFires | Cleanup

fun scan_step :: "scan_event \<Rightarrow> scanner \<Rightarrow> scanner" where
  "scan_step (Frame d) s = animation_frame d s"
| "scan_step TimeoutFires s = timeout_fires s"
| "scan_step Cleanup s = cleanup s"

definition scan_run :: "scan_event list \<Rightarrow> scanner \<Rightarrow> scanner" where
  "scan_run es s = fold scan_step es s"

text \<open>A frame in which the decoder neither finds a payload nor throws.\<close>

fun no_payload :: "decode_result \<Rightarrow> bool" where
  "no_payload NoCode = True"
| "no_payload (Code p) = (p = [])"
| "no_payload DecodeThrows = False"

section \<open>Properties of the recorder\<close>

subsection \<open>Auxiliary facts\<close>

lemma pick_first_None:
  "pick_first pf ts = None \<longleftrightarrow> (\<forall>u\<in>set ts. \<not> reportsSupported pf u)"
  by (induction ts) auto

lemma pick_first_find: "pick_first pf ts = find (reportsSupported pf) ts"
  by (induction ts) auto

lemma pick_first_Some:
  "pick_first pf ts = Some t \<longleftrightarrow>
     (\<exists>pre post. ts = pre @ t # post \<and> reportsSupported pf t \<and>
        (\<forall>u\<in>set pre. \<not> reportsSupported pf u))"
  (is "?lhs ts \<longleftrightarrow> ?rhs ts")
proof (induction ts)
  case Nil
  then show ?case by simp
next
  case (Cons a ts)
  show ?case
  proof (cases "reportsSupported pf a")
    case True
    have "?rhs (a # ts) \<longleftrightarrow> a = t"
    proof
      assume "?rhs (a # ts)"
      then obtain pre post where h: "a # ts = pre @ t # post"
        "\<forall>u\<in>set pre. \<not> reportsSupported pf u" by blast
      show "a = t"
      proof (cases pre)
        case Nil
        with h show ?thesis by simp
      next
        case (Cons b pre')
        with h True show ?thesis by auto
      qed
    next
      assume "a = t"
      then have "a # ts = [] @ t # ts \<and> reportsSupported pf t \<and>
          (\<forall>u\<in>set []. \<not> reportsSupported pf u)"
        using True by simp
      then show "?rhs (a # ts)" by blast
    qed
    moreover have "?lhs (a # ts) \<longleftrightarrow> a = t" using True by auto
    ultimately show ?thesis by simp
  next
    case False
    have "?rhs (a # ts) \<longleftrightarrow> ?rhs ts"
    proof
      assume "?rhs (a # ts)"
      then obtain pre post where h: "a # ts = pre @ t # post" "reportsSupported pf t"
        "\<forall>u\<in>set pre. \<not> reportsSupported pf u" by blast
      show "?rhs ts"
      proof (cases pre)
        case Nil
        with h False show ?thesis by simp
      next
        case (Cons b pre')
        with h have "ts = pre' @ t # post" "\<forall>u\<in>set pre'. \<not> reportsSupported pf u"
          by auto
        with h(2) show ?thesis by blast
      qed
    next
      assume "?rhs ts"
      then obtain pre post where h: "ts = pre @ t # post" "reportsSupported pf t"
        "\<forall>u\<in>set pre. \<not> reportsSupported pf u" by blast
      then have "a # ts = (a # pre) @ t # post \<and> reportsSupported pf t \<and>
          (\<forall>u\<in>set (a # pre). \<not> reportsSupported pf u)"
        using False by simp
      then show "?rhs (a # ts)" by blast
    qed
    with False Cons show ?thesis by simp
  qed
qed

text \<open>A tick adds one second for every live interval whose callback captured \<open>false\<close>.\<close>

lemma tick_fold:
  "fold (\<lambda>i st. case i of None \<Rightarrow> st | Some p \<Rightarrow> interval_callback p st) xs s
     = s\<lparr>seconds := seconds s + length (filter (\<lambda>i. i = Some False) xs)\<rparr>"
proof (induction xs arbitrary: s)
  case Nil
  then show ?case by simp
next
  case (Cons x xs)
  then show ?case by (cases x) (simp_all add: interval_callback_def)
qed

lemma tick_seconds:
  "tick s = s\<lparr>seconds := seconds s + length (filter (\<lambda>i. i = Some False) (intervals s))\<rparr>"
  by (simp add: tick_def tick_fold)

lemma commit_chunks: "chunksRef (commit s) = chunksRef s"
  by (simp add: commit_def split: option.splits)

lemma commit_recorder: "mediaRecorderRef (commit s) = mediaRecorderRef s"
  by (simp add: commit_def split: option.splits)

lemma commit_blob: "blob (commit s) = blob s"
  by (simp add: commit_def split: option.splits)

lemma commit_not_recording: "\<not> isRecording s \<Longrightarrow> commit s = s\<lparr>liveVideoRef := None\<rparr>"
  by (simp add: commit_def)

lemma stop_finally_isRecording: "isRecording (stop_finally s) = False"
  by (simp add: stop_finally_def clearInterval_def stopTracks_def Let_def split: option.splits)

lemma stop_finally_recorder: "mediaRecorderRef (stop_finally s) = mediaRecorderRef s"
  by (simp add: stop_finally_def clearInterval_def stopTracks_def Let_def split: option.splits)

lemma stop_finally_chunks: "chunksRef (stop_finally s) = chunksRef s"
  by (simp add: stop_finally_def clearInterval_def stopTracks_def Let_def split: option.splits)

lemma stop_finally_idem: "stop_finally (stop_finally s) = stop_finally s"
  by (simp add: stop_finally_def clearInterval_def stopTracks_def Let_def split: option.splits)

lemma stop_finally_blob_upd:
  "stop_finally (s\<lparr>blob := x, blobUrl := y\<rparr>) = (stop_finally s)\<lparr>blob := x, blobUrl := y\<rparr>"
  by (simp add: stop_finally_def clearInterval_def stopTracks_def Let_def split: option.splits)

lemma stop_finally_unmounted:
  "stop_finally (s\<lparr>liveVideoRef := None\<rparr>) = (stop_finally s)\<lparr>liveVideoRef := None\<rparr>"
  by (simp add: stop_finally_def clearInterval_def stopTracks_def Let_def split: option.splits)

lemma stop_not_recording: "\<not> isRecording s \<Longrightarrow> stop s = (None, stop_finally s)"
  by (simp add: stop_def split: option.splits)

lemma snd_stop_isRecording: "isRecording (snd (stop s)) = False"
  by (simp add: stop_def stop_finally_isRecording split: option.splits sum.splits)

lemma snd_stop_fixed: "stop_finally (snd (stop s)) = snd (stop s)"
  by (simp add: stop_def stop_finally_idem split: option.splits sum.splits)

lemma onstop_isRecording: "isRecording (onstop m s) = isRecording s"
  by (simp add: onstop_def Let_def)

lemma stop_finally_onstop: "stop_finally (onstop m s) = onstop m (stop_finally s)"
  by (simp add: onstop_def stop_finally_chunks stop_finally_blob_upd Let_def)

lemma stop_finally_stopEvents: "stopEvents (stop_finally s) = stopEvents s"
  by (simp add: stop_finally_def clearInterval_def stopTracks_def Let_def split: option.splits)

lemma stop_finally_stopEvents_upd:
  "stop_finally (s\<lparr>stopEvents := x\<rparr>) = (stop_finally s)\<lparr>stopEvents := x\<rparr>"
  by (simp add: stop_finally_def clearInterval_def stopTracks_def Let_def split: option.splits)

lemma stop_finally_recorder_upd:
  "stop_finally (s\<lparr>mediaRecorderRef := x\<rparr>) = (stop_finally s)\<lparr>mediaRecorderRef := x\<rparr>"
  by (simp add: stop_finally_def clearInterval_def stopTracks_def Let_def split: option.splits)

lemma stop_event_isRecording: "isRecording (stop_event s) = isRecording s"
  by (simp add: stop_event_def onstop_isRecording split: list.splits option.splits)

lemma stop_finally_stop_event: "stop_finally (stop_event s) = stop_event (stop_finally s)"
proof (cases "stopEvents s")
  case (Cons m ms)
  then show ?thesis
    by (simp add: stop_event_def stop_finally_stopEvents stop_finally_onstop
        stop_finally_stopEvents_upd)
next
  case Nil
  show ?thesis
  proof (cases "mediaRecorderRef s")
    case None
    with Nil show ?thesis
      by (simp add: stop_event_def stop_finally_stopEvents stop_finally_recorder)
  next
    case (Some r)
    with Nil show ?thesis
      by (simp add: stop_event_def stop_finally_stopEvents stop_finally_recorder
          stop_finally_onstop stop_finally_recorder_upd)
  qed
qed

lemma stop_event_chunks: "chunksRef (stop_event s) = chunksRef s"
  by (simp add: stop_event_def onstop_def Let_def split: list.splits option.splits)

lemma stop_event_recorder_mode:
  "map_option onstop_mode (mediaRecorderRef (stop_event s))
     = map_option onstop_mode (mediaRecorderRef s)"
  by (simp add: stop_event_def onstop_def Let_def split: list.splits option.splits)

lemma handle_chunks:
  "e \<noteq> ClickStart \<Longrightarrow>
   chunksRef (handle pf e s) = chunksRef s @ filter (\<lambda>c. 0 < blob_size c) (delivered [e])"
proof (cases e)
  case (DataAvailable d)
  then show ?thesis by (cases d) (simp_all add: handle_def ondataavailable_def)
next
  case ClickStop
  then show ?thesis
    by (simp add: handle_def stop_def stop_finally_chunks split: option.splits sum.splits)
next
  case Unmount
  then show ?thesis
    by (simp add: handle_def unmount_def clearInterval_def stopTracks_def mr_stop_def Let_def
        split: option.splits)
qed (simp_all add: handle_def tick_seconds pause_def resume_def mr_pause_def mr_resume_def
      stop_event_chunks split: option.splits)

lemma handle_recorder_mode:
  "e \<noteq> ClickStart \<Longrightarrow>
   map_option onstop_mode (mediaRecorderRef (handle pf e s))
     = map_option onstop_mode (mediaRecorderRef s)"
proof (cases e)
  case (DataAvailable d)
  then show ?thesis by (cases d) (simp_all add: handle_def ondataavailable_def)
next
  case ClickStop
  then show ?thesis
    by (simp add: handle_def stop_def stop_finally_recorder mr_stop_def split: option.splits)
next
  case Unmount
  then show ?thesis
    by (simp add: handle_def unmount_def clearInterval_def stopTracks_def mr_stop_def Let_def
        split: option.splits)
qed (simp_all add: handle_def tick_seconds pause_def resume_def mr_pause_def mr_resume_def
      stop_event_recorder_mode split: option.splits)

text \<open>
  A stop event queued outside of \<open>start\<close> is that of the recorder in \<open>mediaRecorderRef\<close>.
\<close>

lemma commit_stopEvents: "stopEvents (commit s) = stopEvents s"
  by (simp add: commit_def split: option.splits)




lemma delivered_Cons: "delivered (e # es) = delivered [e] @ delivered es"
proof (cases e)
  case (DataAvailable d)
  then show ?thesis by (cases d) simp_all
qed simp_all

lemma run_Cons: "run pf (e # es) s = run pf es (step pf e s)"
  by (simp add: run_def)

lemma run_chunks:
  "ClickStart \<notin> set es \<Longrightarrow>
   chunksRef (run pf es s) = chunksRef s @ filter (\<lambda>c. 0 < blob_size c) (delivered es)"
proof (induction es arbitrary: s)
  case Nil
  then show ?case by (simp add: run_def)
next
  case (Cons e es)
  then have "e \<noteq> ClickStart" and "ClickStart \<notin> set es" by auto
  then show ?case
    using Cons.IH[of "step pf e s"] handle_chunks[of e pf s] delivered_Cons[of e es]
    by (simp add: run_Cons step_def commit_chunks)
qed

lemma run_recorder_mode:
  "ClickStart \<notin> set es \<Longrightarrow>
   map_option onstop_mode (mediaRecorderRef (run pf es s))
     = map_option onstop_mode (mediaRecorderRef s)"
proof (induction es arbitrary: s)
  case Nil
  then show ?case by (simp add: run_def)
next
  case (Cons e es)
  then have "e \<noteq> ClickStart" and "ClickStart \<notin> set es" by auto
  then show ?case
    using Cons.IH[of "step pf e s"] handle_recorder_mode[of e pf s]
    by (simp add: run_Cons step_def commit_recorder)
qed

lemma start_ok:
  "grantsUserMedia pf \<Longrightarrow> hasMediaRecorder pf \<Longrightarrow>
   chunksRef (step pf ClickStart s) = [] \<and>
   map_option onstop_mode (mediaRecorderRef (step pf ClickStart s)) = Some (mode s) \<and>
   map_option rmimeType (mediaRecorderRef (step pf ClickStart s))
     = Some (pickMimeType pf (mode s)) \<and>
   stopEvents (step pf ClickStart s) = stopEvents s"
  by (simp add: step_def handle_def commit_chunks commit_recorder commit_stopEvents start_def
      resetRecording_def Let_def split: option.splits)

text \<open>
  With a recorder in \<open>mediaRecorderRef\<close> a stop event always builds an artifact from the
  chunks collected so far; the tag is that of the recorder whose event it is.
\<close>

lemma stop_event_blob:
  "mediaRecorderRef s = Some r \<Longrightarrow>
   blob (step pf StopEvent s) =
     Some (new_Blob (chunksRef s)
             (if (case stopEvents s of [] \<Rightarrow> onstop_mode r | m # ms \<Rightarrow> m) = Video
              then ''video/webm'' else ''audio/webm''))"
  by (simp add: step_def handle_def commit_blob stop_event_def onstop_def Let_def
      split: list.splits)

lemma payload_nonempty:
  "concat (map payload (filter (\<lambda>c. 0 < blob_size c) cs)) = concat (map payload cs)"
  by (induction cs) (auto simp: blob_size_def)

subsection \<open>Codec negotiation\<close>

text \<open>
  C7. For either capture kind \<open>pickMimeType\<close> returns the first entry of that kind's
  preference list that the runtime reports as supported: it returns \<open>t\<close> exactly when
  \<open>t\<close> stands in the list, is reported as supported, and no entry before it is. It
  returns \<open>undefined\<close> (use the platform default) exactly when no entry is reported as
  supported. It is the library's \<open>find\<close> on the list, a total function: there is no
  failure outcome.
\<close>

theorem pickMimeType_first_supported:
  "(pickMimeType pf k = Some t \<longleftrightarrow>
      (\<exists>pre post. candidates k = pre @ t # post \<and> reportsSupported pf t \<and>
         (\<forall>u\<in>set pre. \<not> reportsSupported pf u)))
   \<and> (pickMimeType pf k = None \<longleftrightarrow> (\<forall>u\<in>set (candidates k). \<not> reportsSupported pf u))
   \<and> pickMimeType pf k = find (reportsSupported pf) (candidates k)"
proof (intro conjI)
  show "pickMimeType pf k = Some t \<longleftrightarrow>
      (\<exists>pre post. candidates k = pre @ t # post \<and> reportsSupported pf t \<and>
         (\<forall>u\<in>set pre. \<not> reportsSupported pf u))"
    unfolding pickMimeType_def by (rule pick_first_Some)
  show "pickMimeType pf k = None \<longleftrightarrow> (\<forall>u\<in>set (candidates k). \<not> reportsSupported pf u)"
    unfolding pickMimeType_def by (rule pick_first_None)
  show "pickMimeType pf k = find (reportsSupported pf) (candidates k)"
    unfolding pickMimeType_def by (rule pick_first_find)
qed

text \<open>
  C7, at a runtime that supports plain \<open>video/webm\<close> only: the two entries with codec
  parameters are skipped and the third is returned.
\<close>

theorem pickMimeType_first_supported_witness:
  "pickMimeType webm_only_platform Video = Some ''video/webm''
   \<and> candidates Video
        = [''video/webm;codecs=vp9,opus'', ''video/webm;codecs=vp8,opus''] @ ''video/webm'' # []
   \<and> reportsSupported webm_only_platform ''video/webm''
   \<and> \<not> reportsSupported webm_only_platform ''video/webm;codecs=vp9,opus''
   \<and> \<not> reportsSupported webm_only_platform ''video/webm;codecs=vp8,opus''
   \<and> pickMimeType bare_platform Audio = None
   \<and> candidates Audio = [''audio/webm;codecs=opus'', ''audio/webm'']
   \<and> \<not> reportsSupported bare_platform ''audio/webm;codecs=opus''
   \<and> \<not> reportsSupported bare_platform ''audio/webm''"
proof -
  have a: "candidates Video
      = [''video/webm;codecs=vp9,opus'', ''video/webm;codecs=vp8,opus''] @ ''video/webm'' # []"
    by (simp add: candidates_def)
  have b: "reportsSupported webm_only_platform ''video/webm''"
    by (simp add: reportsSupported_def webm_only_platform_def)
  have c: "\<forall>u\<in>set [''video/webm;codecs=vp9,opus'', ''video/webm;codecs=vp8,opus''].
      \<not> reportsSupported webm_only_platform u"
    by (simp add: reportsSupported_def webm_only_platform_def)
  have d: "\<forall>u\<in>set (candidates Audio). \<not> reportsSupported bare_platform u"
    by (simp add: reportsSupported_def bare_platform_def)
  have "pickMimeType webm_only_platform Video = Some ''video/webm''"
    using pickMimeType_first_supported[of webm_only_platform Video "''video/webm''"] a b c
    by blast
  moreover have "pickMimeType bare_platform Audio = None"
    using pickMimeType_first_supported[of bare_platform Audio] d by blast
  moreover have "candidates Audio = [''audio/webm;codecs=opus'', ''audio/webm'']"
    by (simp add: candidates_def)
  ultimately show ?thesis using a b c d by simp
qed

subsection \<open>Pause and resume\<close>

text \<open>
  C10. When the recorder is absent or not in the state \<open>recording\<close>, \<open>pause()\<close> returns
  without an exception and leaves the whole session as it was; likewise \<open>resume()\<close>
  when the recorder is absent or not in the state \<open>paused\<close>.
\<close>

theorem pause_resume_noop:
  "(map_option rstate (mediaRecorderRef s) \<noteq> Some Recording \<longrightarrow> pause s = (None, s))
   \<and> (map_option rstate (mediaRecorderRef s) \<noteq> Some Paused \<longrightarrow> resume s = (None, s))"
  by (auto simp: pause_def resume_def split: option.splits)

text \<open>
  C10, on the session left by a start followed by a stop: its recorder is inactive, and
  both calls change nothing.
\<close>

theorem pause_resume_noop_witness:
  "map_option rstate (mediaRecorderRef (run full_platform [ClickStart, ClickStop] init_session))
      = Some Inactive
   \<and> pause (run full_platform [ClickStart, ClickStop] init_session)
      = (None, run full_platform [ClickStart, ClickStop] init_session)
   \<and> resume (run full_platform [ClickStart, ClickStop] init_session)
      = (None, run full_platform [ClickStart, ClickStop] init_session)"
proof -
  have "map_option rstate
      (mediaRecorderRef (run full_platform [ClickStart, ClickStop] init_session))
      = Some Inactive"
    by code_simp
  then show ?thesis
    using pause_resume_noop[of "run full_platform [ClickStart, ClickStop] init_session"]
    by auto
qed

subsection \<open>Stop\<close>

text \<open>
  C6. \<open>stop()\<close> is idempotent. On the session that a first \<open>stop()\<close> leaves, a second
  \<open>stop()\<close> raises nothing and returns that very session: artifact, timer, stream and
  every other field are unchanged. The same holds once a stop event has stored the
  finished artifact (whichever recorder's \<open>onstop\<close> ran), and for the events as the
  component sees them (each followed by a render): the artifact after the second stop is
  the one after the first.
\<close>

theorem stop_idempotent:
  "stop (snd (stop s)) = (None, snd (stop s))
   \<and> stop (onstop m (snd (stop s))) = (None, onstop m (snd (stop s)))
   \<and> stop (stop_event (snd (stop s))) = (None, stop_event (snd (stop s)))
   \<and> stop (run pf [ClickStop, StopEvent] s) = (None, run pf [ClickStop, StopEvent] s)
   \<and> run pf [ClickStop, StopEvent, ClickStop] s = run pf [ClickStop, StopEvent] s"
proof -
  let ?a = "snd (stop s)"
  have a: "\<not> isRecording ?a" by (simp add: snd_stop_isRecording)
  have 1: "stop ?a = (None, ?a)"
    using a by (simp add: stop_not_recording snd_stop_fixed)
  have 2: "stop (onstop m ?a) = (None, onstop m ?a)"
    using a by (simp add: stop_not_recording onstop_isRecording stop_finally_onstop
        snd_stop_fixed)
  have 5: "stop (stop_event ?a) = (None, stop_event ?a)"
    using a by (simp add: stop_not_recording stop_event_isRecording stop_finally_stop_event
        snd_stop_fixed)
  let ?b = "?a\<lparr>liveVideoRef := None\<rparr>"
  have b: "commit ?a = ?b" using a by (simp add: commit_not_recording)
  have fb: "stop_finally ?b = ?b"
    by (simp add: stop_finally_unmounted snd_stop_fixed)
  let ?c = "(stop_event ?b)\<lparr>liveVideoRef := None\<rparr>"
  have "\<not> isRecording (stop_event ?b)" using a by (simp add: stop_event_isRecording)
  then have c: "commit (stop_event ?b) = ?c" by (simp add: commit_not_recording)
  have r: "run pf [ClickStop, StopEvent] s = ?c"
    using b c by (simp add: run_def step_def handle_def)
  have nc: "\<not> isRecording ?c" using a by (simp add: stop_event_isRecording)
  have fc: "stop_finally ?c = ?c"
    using fb by (simp add: stop_finally_unmounted stop_finally_stop_event)
  have 3: "stop ?c = (None, ?c)"
    using nc fc by (simp add: stop_not_recording)
  have "commit ?c = ?c" using nc by (simp add: commit_not_recording)
  then have 4: "run pf [ClickStop, StopEvent, ClickStop] s = ?c"
    using b c 3 by (simp add: run_def step_def handle_def)
  show ?thesis using 1 2 3 4 5 r by simp
qed

subsection \<open>Chunk accumulation and the finished artifact\<close>

text \<open>
  C4. Where the start succeeds, whatever happens between it and the recorder's stop
  event short of another start (chunks arriving, pauses, resumes, ticks, the stop
  click), the payload of the artifact built at the stop event is the concatenation, in
  arrival order, of the delivered chunks of non-zero size; dropping the zero-length
  chunks loses no byte, so it is also the concatenation of all delivered chunks.
\<close>

theorem artifact_payload_is_concat_of_chunks:
  assumes "grantsUserMedia pf" and "hasMediaRecorder pf" and "ClickStart \<notin> set es"
  shows "map_option payload (blob (run pf (ClickStart # es @ [StopEvent]) s))
           = Some (concat (map payload (filter (\<lambda>c. 0 < blob_size c) (delivered es))))
       \<and> map_option payload (blob (run pf (ClickStart # es @ [StopEvent]) s))
           = Some (concat (map payload (delivered es)))
       \<and> chunksRef (run pf (ClickStart # es) s)
           = filter (\<lambda>c. 0 < blob_size c) (delivered es)"
proof -
  let ?s1 = "step pf ClickStart s"
  let ?s2 = "run pf es ?s1"
  have c: "chunksRef ?s2 = filter (\<lambda>c. 0 < blob_size c) (delivered es)"
    using run_chunks[OF assms(3), of pf ?s1] start_ok[OF assms(1,2), of s] by simp
  have "map_option onstop_mode (mediaRecorderRef ?s2) = Some (mode s)"
    using run_recorder_mode[OF assms(3), of pf ?s1] start_ok[OF assms(1,2), of s] by simp
  then obtain r where r: "mediaRecorderRef ?s2 = Some r" by auto
  have "run pf (ClickStart # es @ [StopEvent]) s = step pf StopEvent ?s2"
    by (simp add: run_def)
  moreover have "run pf (ClickStart # es) s = ?s2"
    by (simp add: run_def)
  ultimately show ?thesis
    using stop_event_blob[OF r, of pf] c by (simp add: new_Blob_def payload_nonempty)
qed

text \<open>
  C4, on a recording that delivers three bytes, an empty chunk, a null chunk during a
  pause and two more bytes after the stop click: the artifact holds the five bytes.
\<close>

theorem artifact_payload_is_concat_of_chunks_witness:
  "grantsUserMedia full_platform \<and> hasMediaRecorder full_platform
   \<and> ClickStart \<notin> set [DataAvailable (Some \<lparr>payload = [1, 2, 3], btype = ''audio/webm''\<rparr>),
        DataAvailable (Some \<lparr>payload = [], btype = ''audio/webm''\<rparr>),
        ClickPause, DataAvailable None, ClickResume, ClickStop,
        DataAvailable (Some \<lparr>payload = [4, 5], btype = ''audio/webm''\<rparr>)]
   \<and> map_option payload (blob (run full_platform
        (ClickStart #
         [DataAvailable (Some \<lparr>payload = [1, 2, 3], btype = ''audio/webm''\<rparr>),
          DataAvailable (Some \<lparr>payload = [], btype = ''audio/webm''\<rparr>),
          ClickPause, DataAvailable None, ClickResume, ClickStop,
          DataAvailable (Some \<lparr>payload = [4, 5], btype = ''audio/webm''\<rparr>)] @ [StopEvent])
        init_session))
      = Some [1, 2, 3, 4, 5]"
proof -
  have h: "grantsUserMedia full_platform" "hasMediaRecorder full_platform"
    by (simp_all add: full_platform_def)
  have n: "ClickStart \<notin> set [DataAvailable (Some \<lparr>payload = [1, 2, 3], btype = ''audio/webm''\<rparr>),
        DataAvailable (Some \<lparr>payload = [], btype = ''audio/webm''\<rparr>),
        ClickPause, DataAvailable None, ClickResume, ClickStop,
        DataAvailable (Some \<lparr>payload = [4, 5], btype = ''audio/webm''\<rparr>)]"
    by simp
  show ?thesis
    using h n artifact_payload_is_concat_of_chunks[OF h n, of init_session]
    by (simp add: blob_size_def)
qed


text \<open>
  The stop event of a recorder that has been replaced meanwhile tags by the mode of its
  own start: an audio recording is stopped, the mode is switched to video and a video
  recording is started before the stop event of the first recorder fires. That event
  stores an artifact tagged \<open>audio/webm\<close>, built from the chunks in \<open>chunksRef\<close> at that
  moment.
\<close>

lemma stop_event_of_replaced_recorder:
  "map_option btype (blob (run full_platform
      [ClickStart, DataAvailable (Some \<lparr>payload = [1], btype = ''audio/webm''\<rparr>), ClickStop,
       SetMode Video, ClickStart,
       DataAvailable (Some \<lparr>payload = [2], btype = ''video/webm''\<rparr>), StopEvent]
      init_session)) = Some ''audio/webm''
   \<and> map_option payload (blob (run full_platform
      [ClickStart, DataAvailable (Some \<lparr>payload = [1], btype = ''audio/webm''\<rparr>), ClickStop,
       SetMode Video, ClickStart,
       DataAvailable (Some \<lparr>payload = [2], btype = ''video/webm''\<rparr>), StopEvent]
      init_session)) = Some [2]"
  by code_simp



subsection \<open>Elapsed time and resource release\<close>

text \<open>
  C1, evaluated on the run of the claim: start, five ticks, pause, three ticks, resume,
  two ticks. The interval callback reads the \<open>isPaused\<close> of the render in which
  \<open>start\<close> was invoked, which is false, so the three ticks in the paused state count
  as well: the counter reads 5 at the pause, 8 at the resume and 10 at the end, not 7.
\<close>

theorem paused_ticks_still_counted:
  "seconds (run full_platform
      [ClickStart, Tick, Tick, Tick, Tick, Tick, ClickPause] init_session) = 5
   \<and> isPaused (run full_platform
      [ClickStart, Tick, Tick, Tick, Tick, Tick, ClickPause] init_session)
   \<and> seconds (run full_platform
      [ClickStart, Tick, Tick, Tick, Tick, Tick, ClickPause, Tick, Tick, Tick] init_session) = 8
   \<and> seconds (run full_platform
      [ClickStart, Tick, Tick, Tick, Tick, Tick, ClickPause, Tick, Tick, Tick,
       ClickResume, Tick, Tick] init_session) = 10
   \<and> seconds (run full_platform
      [ClickStart, Tick, Tick, Tick, Tick, Tick, ClickPause, Tick, Tick, Tick,
       ClickResume, Tick, Tick, ClickStop, StopEvent] init_session) = 10"
  by code_simp

text \<open>The two paths that do release the stream held in \<open>streamRef\<close>: stop and teardown.\<close>

lemma stop_finally_releases:
  "streamRef s = Some sid \<Longrightarrow> sid < length (tracks s) \<Longrightarrow>
   tracks (stop_finally s) ! sid = False \<and> streamRef (stop_finally s) = None"
  by (simp add: stop_finally_def clearInterval_def stopTracks_def Let_def split: option.splits)

lemma stop_releases_stream:
  "streamRef s = Some sid \<Longrightarrow> sid < length (tracks s) \<Longrightarrow>
   tracks (snd (stop s)) ! sid = False \<and> streamRef (snd (stop s)) = None"
  by (simp add: stop_def stop_finally_releases mr_stop_def split: option.splits)

lemma unmount_releases_stream:
  "streamRef s = Some sid \<Longrightarrow> sid < length (tracks s) \<Longrightarrow>
   tracks (unmount s) ! sid = False"
  by (simp add: unmount_def clearInterval_def stopTracks_def mr_stop_def Let_def
      split: option.splits)

text \<open>
  C3, evaluated where \<open>getUserMedia\<close> succeeds and the recorder cannot be constructed.
  After the failed start the stream is live although no recording runs; a second start
  acquires another stream and overwrites \<open>streamRef\<close>, and from then on neither stop nor
  teardown reaches the first stream, whose tracks stay live.
\<close>

theorem stream_leaked_when_recorder_construction_fails:
  "tracks (run bare_platform [ClickStart] init_session) = [True]
   \<and> \<not> isRecording (run bare_platform [ClickStart] init_session)
   \<and> mediaRecorderRef (run bare_platform [ClickStart] init_session) = None
   \<and> alerts (run bare_platform [ClickStart] init_session) = [RecorderConstructionFailed]
   \<and> streamRef (run bare_platform [ClickStart, ClickStart] init_session) = Some 1
   \<and> tracks (run bare_platform [ClickStart, ClickStart] init_session) = [True, True]
   \<and> tracks (run bare_platform [ClickStart, ClickStart, ClickStop] init_session) = [True, False]
   \<and> tracks (run bare_platform [ClickStart, ClickStart, Unmount] init_session) = [True, False]"
  by code_simp


section \<open>Properties of the scan loop\<close>

subsection \<open>Auxiliary facts\<close>

lemma frame_no_payload:
  "videoEl s \<Longrightarrow> canvasEl s \<Longrightarrow> raf s = Some sid \<Longrightarrow> no_payload d \<Longrightarrow>
   animation_frame d s = s"
  by (cases d) (simp_all add: animation_frame_def loop_def)

lemma frame_throws:
  "videoEl s \<Longrightarrow> canvasEl s \<Longrightarrow> raf s = Some sid \<Longrightarrow>
   animation_frame DecodeThrows s = s\<lparr>raf := None\<rparr>"
  by (simp add: animation_frame_def loop_def)

lemma frame_payload:
  "videoEl s \<Longrightarrow> canvasEl s \<Longrightarrow> raf s = Some sid \<Longrightarrow> p \<noteq> [] \<Longrightarrow>
   animation_frame (Code p) s =
     s\<lparr>camTracks := (camTracks s)[sid := False], raf := None, timeouts := timeouts s @ [p]\<rparr>"
  by (simp add: animation_frame_def loop_def)

lemma frame_idle: "raf s = None \<Longrightarrow> animation_frame d s = s"
  by (simp add: animation_frame_def)

lemma frames_no_payload:
  "videoEl s \<Longrightarrow> canvasEl s \<Longrightarrow> raf s = Some sid \<Longrightarrow> \<forall>d\<in>set fs. no_payload d \<Longrightarrow>
   scan_run (map Frame fs) s = s"
  by (induction fs) (simp_all add: scan_run_def frame_no_payload)

lemma frames_idle: "raf s = None \<Longrightarrow> scan_run (map Frame fs) s = s"
  by (induction fs) (simp_all add: scan_run_def frame_idle)

lemma scan_run_append: "scan_run (es @ fs) s = scan_run fs (scan_run es s)"
  by (simp add: scan_run_def)

text \<open>With no callback pending and no timeout pending, nothing redirects any more.\<close>

lemma idle_hrefs:
  "raf s = None \<Longrightarrow> timeouts s = [] \<Longrightarrow> hrefs (scan_run es s) = hrefs s"
proof (induction es arbitrary: s)
  case Nil
  then show ?case by (simp add: scan_run_def)
next
  case (Cons e es)
  have "raf (scan_step e s) = None \<and> timeouts (scan_step e s) = []
      \<and> hrefs (scan_step e s) = hrefs s"
    using Cons.prems
    by (cases e) (simp_all add: animation_frame_def timeout_fires_def cleanup_def Let_def
        split: option.splits)
  then show ?case using Cons.IH[of "scan_step e s"] by (simp add: scan_run_def)
qed

text \<open>With one timeout pending and the loop ended, the redirect happens when it fires.\<close>

lemma found_hrefs:
  "raf s = None \<Longrightarrow> timeouts s = [p] \<Longrightarrow> hrefs s = [] \<Longrightarrow>
   hrefs (scan_run es s) = (if TimeoutFires \<in> set es then [p] else [])"
proof (induction es arbitrary: s)
  case Nil
  then show ?case by (simp add: scan_run_def)
next
  case (Cons e es)
  show ?case
  proof (cases "e = TimeoutFires")
    case True
    have "raf (scan_step e s) = None \<and> timeouts (scan_step e s) = []
        \<and> hrefs (scan_step e s) = [p]"
      using Cons.prems True by (simp add: timeout_fires_def)
    then show ?thesis
      using idle_hrefs[of "scan_step e s" es] True by (simp add: scan_run_def)
  next
    case False
    have "raf (scan_step e s) = None \<and> timeouts (scan_step e s) = [p]
        \<and> hrefs (scan_step e s) = []"
      using Cons.prems False
      by (cases e) (simp_all add: animation_frame_def cleanup_def Let_def split: option.splits)
    then show ?thesis using Cons.IH[of "scan_step e s"] False by (simp add: scan_run_def)
  qed
qed

lemma scan_start_ok:
  "videoEl s \<Longrightarrow>
   scan_start True True s =
     s\<lparr>camTracks := camTracks s @ [True], scanStreamRef := Some (length (camTracks s)),
       videoSrc := Some (length (camTracks s)), cameraAllowed := True,
       raf := Some (length (camTracks s))\<rparr>"
  by (simp add: scan_start_def Let_def)

subsection \<open>Successful decode\<close>

text \<open>
  C5. Take an activation of the scan loop on a mounted scan screen with nothing pending,
  any number of frames without a payload, and then a frame that decodes to a payload
  \<open>p\<close>. After that frame no animation-frame callback is pending (no further sampling),
  the tracks of the activation's stream are stopped, and exactly one redirect to \<open>p\<close> is
  pending. Whatever events follow (frames, timeouts, the effect's cleanup), the
  redirects performed are exactly \<open>[p]\<close> once the timeout has fired and none before:
  never a second one.
\<close>

theorem decode_success_redirects_once:
  assumes "videoEl s" and "canvasEl s" and "timeouts s = []" and "hrefs s = []"
    and "\<forall>d\<in>set fs. no_payload d" and "p \<noteq> []"
  shows "let s1 = scan_run (map Frame fs @ [Frame (Code p)]) (scan_start True True s) in
           raf s1 = None
         \<and> scanStreamRef s1 = Some (length (camTracks s))
         \<and> camTracks s1 ! length (camTracks s) = False
         \<and> timeouts s1 = [p]
         \<and> hrefs s1 = []
         \<and> (\<forall>es. hrefs (scan_run es s1) = (if TimeoutFires \<in> set es then [p] else []))"
proof -
  let ?n = "length (camTracks s)"
  let ?s0 = "scan_start True True s"
  let ?s1 = "scan_run (map Frame fs @ [Frame (Code p)]) ?s0"
  have s0: "?s0 = s\<lparr>camTracks := camTracks s @ [True], scanStreamRef := Some ?n,
       videoSrc := Some ?n, cameraAllowed := True, raf := Some ?n\<rparr>"
    using assms(1) by (rule scan_start_ok)
  have v: "videoEl ?s0" "canvasEl ?s0" "raf ?s0 = Some ?n"
    using assms(1,2) by (simp_all add: s0)
  have "scan_run (map Frame fs) ?s0 = ?s0"
    using v assms(5) by (rule frames_no_payload)
  then have "?s1 = animation_frame (Code p) ?s0"
    by (simp add: scan_run_append) (simp add: scan_run_def)
  then have s1: "?s1 = ?s0\<lparr>camTracks := (camTracks ?s0)[?n := False], raf := None,
      timeouts := timeouts ?s0 @ [p]\<rparr>"
    using frame_payload[OF v assms(6)] by simp
  have a: "raf ?s1 = None" unfolding s1 by simp
  have b: "scanStreamRef ?s1 = Some ?n" unfolding s1 by (simp add: s0)
  have c: "camTracks ?s1 ! ?n = False" unfolding s1 by (simp add: s0)
  have d: "timeouts ?s1 = [p]" unfolding s1 using assms(3) by (simp add: s0)
  have e: "hrefs ?s1 = []" unfolding s1 using assms(4) by (simp add: s0)
  have "\<forall>es. hrefs (scan_run es ?s1) = (if TimeoutFires \<in> set es then [p] else [])"
    using found_hrefs[OF a d e] by blast
  with a b c d e show ?thesis by (simp add: Let_def)
qed

text \<open>
  C5, on the scenario of a frame stream that decodes on the fourth sample: one redirect,
  also when the cleanup and further frames follow.
\<close>

theorem decode_success_redirects_once_witness:
  "videoEl init_scanner \<and> canvasEl init_scanner
   \<and> timeouts init_scanner = [] \<and> hrefs init_scanner = []
   \<and> no_payload NoCode \<and> no_payload (Code [])
   \<and> ''https://a.example/x'' \<noteq> []
   \<and> raf (scan_run (map Frame [NoCode, Code [], NoCode] @ [Frame (Code ''https://a.example/x'')])
          (scan_start True True init_scanner)) = None
   \<and> camTracks (scan_run (map Frame [NoCode, Code [], NoCode] @ [Frame (Code ''https://a.example/x'')])
          (scan_start True True init_scanner)) ! length (camTracks init_scanner) = False
   \<and> hrefs (scan_run [TimeoutFires, Frame (Code ''https://b.example/y''), Cleanup, TimeoutFires]
        (scan_run (map Frame [NoCode, Code [], NoCode] @ [Frame (Code ''https://a.example/x'')])
          (scan_start True True init_scanner))) = [''https://a.example/x'']"
proof -
  have h: "videoEl init_scanner" "canvasEl init_scanner"
    "timeouts init_scanner = []" "hrefs init_scanner = []"
    by (simp_all add: init_scanner_def)
  have f: "\<forall>d\<in>set [NoCode, Code [], NoCode]. no_payload d" by simp
  have p: "''https://a.example/x'' \<noteq> []" by simp
  note t = decode_success_redirects_once[OF h f p]
  have "hrefs (scan_run [TimeoutFires, Frame (Code ''https://b.example/y''), Cleanup, TimeoutFires]
        (scan_run (map Frame [NoCode, Code [], NoCode] @ [Frame (Code ''https://a.example/x'')])
          (scan_start True True init_scanner))) = [''https://a.example/x'']"
    using t by (simp add: Let_def)
  moreover have "no_payload NoCode" "no_payload (Code [])" by simp_all
  ultimately show ?thesis using h p t by (simp add: Let_def)
qed

subsection \<open>Cancellation\<close>

text \<open>
  C2, evaluated where a frame decodes and the screen is left before the delayed
  redirect has fired. The cleanup cancels the animation frame and stops the tracks but
  not the timeout that the successful decode has set: no redirect has happened when the
  cleanup returns, and the redirect to the decoded payload happens afterwards.
\<close>

theorem redirect_fires_after_cleanup:
  "hrefs (scan_run [Frame (Code ''https://a.example/x''), Cleanup]
            (scan_start True True init_scanner)) = []
   \<and> timeouts (scan_run [Frame (Code ''https://a.example/x''), Cleanup]
            (scan_start True True init_scanner)) = [''https://a.example/x'']
   \<and> hrefs (scan_run [Frame (Code ''https://a.example/x''), Cleanup, TimeoutFires]
            (scan_start True True init_scanner)) = [''https://a.example/x'']"
  by (simp add: scan_run_def animation_frame_def loop_def timeout_fires_def cleanup_def
      scan_start_def init_scanner_def Let_def)

subsection \<open>A decoder that throws\<close>

text \<open>
  C9 fails as stated. After a frame on which the decoder throws, no animation-frame
  callback is pending, and a later frame that would decode is never sampled: nothing is
  scheduled and nothing redirects.
\<close>

theorem decode_throw_ends_loop_counterexample:
  "raf (scan_run [Frame DecodeThrows] (scan_start True True init_scanner)) = None
   \<and> timeouts (scan_run [Frame DecodeThrows, Frame (Code ''https://a.example/x'')]
        (scan_start True True init_scanner)) = []
   \<and> hrefs (scan_run [Frame DecodeThrows, Frame (Code ''https://a.example/x''), TimeoutFires]
        (scan_start True True init_scanner)) = []"
  by (simp add: scan_run_def animation_frame_def loop_def timeout_fires_def
      scan_start_def init_scanner_def Let_def)

text \<open>
  C9, amended. While the loop is scanning on a mounted screen, a frame in which the
  decoder returns no payload (null, or an empty string) is an ordinary failure: the state
  is unchanged and the next iteration is pending. A decode attempt that throws is not
  caught by the loop: the exception leaves the callback, no next iteration is scheduled,
  the rest of the state (the stream included, which stays acquired) is unchanged, and
  further animation frames find nothing to run.
\<close>

theorem decode_failure_continues_throw_ends:
  assumes "videoEl s" and "canvasEl s" and "raf s = Some sid"
  shows "(no_payload d \<longrightarrow> animation_frame d s = s)
       \<and> loop sid DecodeThrows (s\<lparr>raf := None\<rparr>) = Inl DecodeError
       \<and> animation_frame DecodeThrows s = s\<lparr>raf := None\<rparr>
       \<and> scan_run (map Frame fs) (animation_frame DecodeThrows s) = s\<lparr>raf := None\<rparr>"
proof -
  have t: "animation_frame DecodeThrows s = s\<lparr>raf := None\<rparr>"
    using assms by (rule frame_throws)
  have "scan_run (map Frame fs) (s\<lparr>raf := None\<rparr>) = s\<lparr>raf := None\<rparr>"
    by (rule frames_idle) simp
  moreover have "loop sid DecodeThrows (s\<lparr>raf := None\<rparr>) = Inl DecodeError"
    using assms(1,2) by (simp add: loop_def)
  ultimately show ?thesis
    using t frame_no_payload[OF assms, of d] by simp
qed

text \<open>C9 as amended, on the state right after a successful activation.\<close>

theorem decode_failure_continues_throw_ends_witness:
  "videoEl (scan_start True True init_scanner) \<and> canvasEl (scan_start True True init_scanner)
   \<and> raf (scan_start True True init_scanner) = Some 0
   \<and> no_payload NoCode
   \<and> animation_frame NoCode (scan_start True True init_scanner) = scan_start True True init_scanner
   \<and> raf (animation_frame DecodeThrows (scan_start True True init_scanner)) = None
   \<and> camTracks (animation_frame DecodeThrows (scan_start True True init_scanner)) = [True]
   \<and> raf (scan_run (map Frame [NoCode, Code ''https://a.example/x''])
        (animation_frame DecodeThrows (scan_start True True init_scanner))) = None"
proof -
  have h: "videoEl (scan_start True True init_scanner)"
    "canvasEl (scan_start True True init_scanner)"
    "raf (scan_start True True init_scanner) = Some 0"
    by (simp_all add: scan_start_def init_scanner_def Let_def)
  have c: "camTracks (scan_start True True init_scanner) = [True]"
    by (simp add: scan_start_def init_scanner_def Let_def)
  note t = decode_failure_continues_throw_ends[OF h,
      of NoCode "[NoCode, Code ''https://a.example/x'']"]
  have 1: "animation_frame NoCode (scan_start True True init_scanner)
      = scan_start True True init_scanner"
    using t by simp
  have 2: "animation_frame DecodeThrows (scan_start True True init_scanner)
      = (scan_start True True init_scanner)\<lparr>raf := None\<rparr>"
    using t by blast
  have 3: "scan_run (map Frame [NoCode, Code ''https://a.example/x''])
        (animation_frame DecodeThrows (scan_start True True init_scanner))
      = (scan_start True True init_scanner)\<lparr>raf := None\<rparr>"
    using t by blast
  have 4: "raf (animation_frame DecodeThrows (scan_start True True init_scanner)) = None"
    unfolding 2 by simp
  have 5: "camTracks (animation_frame DecodeThrows (scan_start True True init_scanner)) = [True]"
    unfolding 2 using c by simp
  have 6: "raf (scan_run (map Frame [NoCode, Code ''https://a.example/x''])
        (animation_frame DecodeThrows (scan_start True True init_scanner))) = None"
    unfolding 3 by simp
  have 7: "no_payload NoCode" by simp
  show ?thesis using h 1 4 5 6 7 by blast
qed


end
